theory Spec2Isabelle
  imports Main "HOL-Library.Word"
begin

section \<open>Rollout policy of the ingress controller deployment\<close>

text \<open>
  A shallow embedding of \<^verbatim>\<open>pkg/operator/controller/ingress/deployment-strategy.go\<close>:
  the functions \<^verbatim>\<open>foo\<close>, \<^verbatim>\<open>singleReplica\<close> and \<^verbatim>\<open>determineDeploymentReplicas\<close>.

  Go structs are records and keep their field names; where two structs share a field
  name the record name qualifies it (\<open>Deployment.Spec\<close>, \<open>IngressController.Spec\<close>).
  A Go pointer field and a Go slice field are an \<open>option\<close>: \<open>None\<close> is \<^verbatim>\<open>nil\<close>.
  Go's string-based enumerations (\<^verbatim>\<open>type TopologyMode string\<close>) are
  \<open>string\<close>, so that values outside the declared constants exist, as they do in Go.
  \<^verbatim>\<open>int32\<close> is \<open>32 word\<close>, compared as a signed number.
  The constants of the imported API packages have the values those packages declare.
  Only the fields the three functions read or write are modelled; the four pointer
  parameters of \<^verbatim>\<open>foo\<close> are taken as non-nil, the one pointer it dereferences
  inside them (\<^verbatim>\<open>ci.Status.EndpointPublishingStrategy\<close>) is an \<open>option\<close>.
\<close>

type_synonym int32 = "32 word"

subsection \<open>\<^verbatim>\<open>k8s.io/apimachinery\<close>: IntOrString and label selectors\<close>

datatype IntOrStringType = Int_Type | String_Type

text \<open>The two values of \<^verbatim>\<open>intstr.Type\<close> are \<^verbatim>\<open>Int\<close> and \<^verbatim>\<open>String\<close>; \<open>Int\<close> is already HOL's
  notation for set intersection, hence the suffix.\<close>

record IntOrString =
  Type :: IntOrStringType
  IntVal :: int32
  StrVal :: string

text \<open>\<^verbatim>\<open>intstr.FromInt\<close> and \<^verbatim>\<open>intstr.FromString\<close>: the unnamed fields keep Go's zero value.
  \<^verbatim>\<open>FromInt\<close> is only called on the constant 0 here, so its argument is taken as an int32.\<close>

definition FromInt :: "int32 \<Rightarrow> IntOrString" where
  "FromInt val = \<lparr>Type = Int_Type, IntVal = val, StrVal = ''''\<rparr>"

definition FromString :: "string \<Rightarrow> IntOrString" where
  "FromString val = \<lparr>Type = String_Type, IntVal = 0, StrVal = val\<rparr>"

type_synonym LabelSelectorOperator = string

definition LabelSelectorOpIn :: LabelSelectorOperator where
  "LabelSelectorOpIn = ''In''"

definition LabelSelectorOpNotIn :: LabelSelectorOperator where
  "LabelSelectorOpNotIn = ''NotIn''"

record LabelSelectorRequirement =
  Key :: string
  Operator :: LabelSelectorOperator
  Values :: "string list option"

record LabelSelector =
  MatchExpressions :: "LabelSelectorRequirement list option"

subsection \<open>\<^verbatim>\<open>k8s.io/api/core/v1\<close>: affinity\<close>

record PodAffinityTerm =
  LabelSelector :: "LabelSelector option"
  TopologyKey :: string

record WeightedPodAffinityTerm =
  Weight :: int32
  PodAffinityTerm :: PodAffinityTerm

record PodAffinity =
  RequiredDuringSchedulingIgnoredDuringExecution :: "PodAffinityTerm list option"
  PreferredDuringSchedulingIgnoredDuringExecution :: "WeightedPodAffinityTerm list option"

record PodAntiAffinity =
  RequiredDuringSchedulingIgnoredDuringExecution :: "PodAffinityTerm list option"
  PreferredDuringSchedulingIgnoredDuringExecution :: "WeightedPodAffinityTerm list option"

record Affinity =
  PodAffinity :: "PodAffinity option"
  PodAntiAffinity :: "PodAntiAffinity option"

record PodSpec =
  Affinity :: "Affinity option"

record PodTemplateSpec =
  Spec :: PodSpec

subsection \<open>\<^verbatim>\<open>k8s.io/api/apps/v1\<close>: the deployment\<close>

type_synonym DeploymentStrategyType = string

definition RollingUpdateDeploymentStrategyType :: DeploymentStrategyType where
  "RollingUpdateDeploymentStrategyType = ''RollingUpdate''"

record RollingUpdateDeployment =
  MaxUnavailable :: "IntOrString option"
  MaxSurge :: "IntOrString option"

record DeploymentStrategy =
  Type :: DeploymentStrategyType
  RollingUpdate :: "RollingUpdateDeployment option"

record DeploymentSpec =
  Replicas :: "int32 option"
  Strategy :: DeploymentStrategy
  Template :: PodTemplateSpec

record Deployment =
  Spec :: DeploymentSpec

subsection \<open>\<^verbatim>\<open>github.com/openshift/api\<close>: operator/v1 and config/v1\<close>

type_synonym EndpointPublishingStrategyType = string

definition LoadBalancerServiceStrategyType :: EndpointPublishingStrategyType where
  "LoadBalancerServiceStrategyType = ''LoadBalancerService''"

definition HostNetworkStrategyType :: EndpointPublishingStrategyType where
  "HostNetworkStrategyType = ''HostNetwork''"

definition PrivateStrategyType :: EndpointPublishingStrategyType where
  "PrivateStrategyType = ''Private''"

definition NodePortServiceStrategyType :: EndpointPublishingStrategyType where
  "NodePortServiceStrategyType = ''NodePortService''"

record EndpointPublishingStrategy =
  Type :: EndpointPublishingStrategyType

record IngressControllerSpec =
  Replicas :: "int32 option"

record IngressControllerStatus =
  EndpointPublishingStrategy :: "EndpointPublishingStrategy option"

record IngressController =
  Name :: string
  Spec :: IngressControllerSpec
  Status :: IngressControllerStatus

type_synonym TopologyMode = string

definition HighlyAvailableTopologyMode :: TopologyMode where
  "HighlyAvailableTopologyMode = ''HighlyAvailable''"

definition SingleReplicaTopologyMode :: TopologyMode where
  "SingleReplicaTopologyMode = ''SingleReplica''"

type_synonym DefaultPlacement = string

definition DefaultPlacementWorkers :: DefaultPlacement where
  "DefaultPlacementWorkers = ''Workers''"

definition DefaultPlacementControlPlane :: DefaultPlacement where
  "DefaultPlacementControlPlane = ''ControlPlane''"

record InfrastructureStatus =
  ControlPlaneTopology :: TopologyMode
  InfrastructureTopology :: TopologyMode

record Infrastructure =
  Status :: InfrastructureStatus

record IngressStatus =
  DefaultPlacement :: DefaultPlacement

record Ingress =
  Status :: IngressStatus

subsection \<open>What the file uses of the rest of the operator\<close>

text \<open>
  The file calls \<^verbatim>\<open>DetermineReplicas\<close> (the default replica policy, same package) and
  \<^verbatim>\<open>controller.IngressControllerDeploymentLabel\<close>, and reads the constants
  \<^verbatim>\<open>controller.ControllerDeploymentLabel\<close> and \<^verbatim>\<open>controller.ControllerDeploymentHashLabel\<close>.
  None of them is defined in this source file, so they are parameters of the model, with no
  assumption on them beyond their types (both functions return without a fault).
\<close>

record Externals =
  DetermineReplicas :: "Ingress \<Rightarrow> Infrastructure \<Rightarrow> int32"
  IngressControllerDeploymentLabel :: "IngressController \<Rightarrow> string"
  ControllerDeploymentLabel :: string
  ControllerDeploymentHashLabel :: string

subsection \<open>\<^verbatim>\<open>determineDeploymentReplicas\<close> and \<^verbatim>\<open>singleReplica\<close>\<close>

definition determineDeploymentReplicas ::
  "Externals \<Rightarrow> IngressController \<Rightarrow> Ingress \<Rightarrow> Infrastructure \<Rightarrow> int32" where
  "determineDeploymentReplicas ext ic ingressConfig infraConfig =
     (case IngressControllerSpec.Replicas (IngressController.Spec ic) of
        Some replicas \<Rightarrow> replicas
      | None \<Rightarrow> DetermineReplicas ext ingressConfig infraConfig)"

definition singleReplica :: "Ingress \<Rightarrow> Infrastructure \<Rightarrow> bool" where
  "singleReplica ingressConfig infraConfig =
     (let topology = InfrastructureTopology (Infrastructure.Status infraConfig);
          topology =
            (if DefaultPlacement (Ingress.Status ingressConfig) = DefaultPlacementControlPlane
             then ControlPlaneTopology (Infrastructure.Status infraConfig)
             else topology)
      in topology = SingleReplicaTopologyMode)"

subsection \<open>\<^verbatim>\<open>foo\<close>\<close>

text \<open>
  \<^verbatim>\<open>foo\<close> mutates the deployment through its pointer and returns a flag. The model
  takes the deployment and returns the updated one with the flag. The only fault the body
  can raise on non-nil parameters is the nil dereference of
  \<^verbatim>\<open>ci.Status.EndpointPublishingStrategy\<close> in the \<^verbatim>\<open>switch\<close>; since the panic comes
  after the write of \<^verbatim>\<open>deployment.Spec.Replicas\<close>, the fault carries the deployment as
  it is at that moment.
\<close>

datatype panic = NilPointerDereference

type_synonym outcome = "(panic \<times> Deployment) + (Deployment \<times> bool)"

text \<open>The three assignments of the body, by the path they assign to.\<close>

definition set_Spec_Replicas :: "int32 option \<Rightarrow> Deployment \<Rightarrow> Deployment" where
  "set_Spec_Replicas v = Deployment.Spec_update (DeploymentSpec.Replicas_update (\<lambda>_. v))"

definition set_Spec_Strategy :: "DeploymentStrategy \<Rightarrow> Deployment \<Rightarrow> Deployment" where
  "set_Spec_Strategy v = Deployment.Spec_update (DeploymentSpec.Strategy_update (\<lambda>_. v))"

definition set_Spec_Template_Spec_Affinity :: "Affinity option \<Rightarrow> Deployment \<Rightarrow> Deployment" where
  "set_Spec_Template_Spec_Affinity v =
     Deployment.Spec_update (DeploymentSpec.Template_update
       (PodTemplateSpec.Spec_update (PodSpec.Affinity_update (\<lambda>_. v))))"

definition foo ::
  "Externals \<Rightarrow> IngressController \<Rightarrow> Deployment \<Rightarrow> Ingress \<Rightarrow> Infrastructure \<Rightarrow> outcome" where
  "foo ext ci deployment ingressConfig infraConfig =
     (let desiredReplicas = determineDeploymentReplicas ext ci ingressConfig infraConfig;
          deployment = set_Spec_Replicas (Some desiredReplicas) deployment
      in
      if singleReplica ingressConfig infraConfig then Inr (deployment, False)
      else
        (case EndpointPublishingStrategy (IngressController.Status ci) of
           None \<Rightarrow> Inl (NilPointerDereference, deployment)
         | Some strategy \<Rightarrow>
             if EndpointPublishingStrategy.Type strategy = HostNetworkStrategyType then
               Inr (set_Spec_Strategy
                      \<lparr>DeploymentStrategy.Type = RollingUpdateDeploymentStrategyType,
                       RollingUpdate = Some
                         \<lparr>MaxUnavailable = Some (FromString ''25%''),
                          MaxSurge = Some (FromInt 0)\<rparr>\<rparr>
                      deployment,
                    False)
             else if EndpointPublishingStrategy.Type strategy = PrivateStrategyType
                   \<or> EndpointPublishingStrategy.Type strategy = LoadBalancerServiceStrategyType
                   \<or> EndpointPublishingStrategy.Type strategy = NodePortServiceStrategyType then
               (let maxUnavailable = (if word_sle 4 desiredReplicas then ''25%'' else ''50%'');
                    deployment = set_Spec_Strategy
                      \<lparr>DeploymentStrategy.Type = RollingUpdateDeploymentStrategyType,
                       RollingUpdate = Some
                         \<lparr>MaxUnavailable = Some (FromString maxUnavailable),
                          MaxSurge = Some (FromString ''25%'')\<rparr>\<rparr>
                      deployment;
                    deployment = set_Spec_Template_Spec_Affinity (Some
                      \<lparr>PodAffinity = Some
                         \<lparr>PodAffinity.RequiredDuringSchedulingIgnoredDuringExecution = None,
                          PodAffinity.PreferredDuringSchedulingIgnoredDuringExecution = Some
                            [\<lparr>Weight = 100,
                              PodAffinityTerm =
                                \<lparr>LabelSelector = Some
                                   \<lparr>MatchExpressions = Some
                                      [\<lparr>Key = ControllerDeploymentLabel ext,
                                        Operator = LabelSelectorOpIn,
                                        Values = Some [IngressControllerDeploymentLabel ext ci]\<rparr>,
                                       \<lparr>Key = ControllerDeploymentHashLabel ext,
                                        Operator = LabelSelectorOpNotIn,
                                        Values = None\<rparr>]\<rparr>,
                                 TopologyKey = ''kubernetes.io/hostname''\<rparr>\<rparr>]\<rparr>,
                       PodAntiAffinity = Some
                         \<lparr>PodAntiAffinity.RequiredDuringSchedulingIgnoredDuringExecution = Some
                            [\<lparr>LabelSelector = Some
                                \<lparr>MatchExpressions = Some
                                   [\<lparr>Key = ControllerDeploymentLabel ext,
                                     Operator = LabelSelectorOpIn,
                                     Values = Some [IngressControllerDeploymentLabel ext ci]\<rparr>,
                                    \<lparr>Key = ControllerDeploymentHashLabel ext,
                                     Operator = LabelSelectorOpIn,
                                     Values = None\<rparr>]\<rparr>,
                              TopologyKey = ''kubernetes.io/hostname''\<rparr>],
                          PodAntiAffinity.PreferredDuringSchedulingIgnoredDuringExecution = None\<rparr>\<rparr>)
                      deployment
                in Inr (deployment, True))
             else Inr (deployment, False)))"

subsection \<open>Reading the deployment after the call\<close>

text \<open>The deployment object as the call leaves it, whether it returned or panicked.\<close>

definition deploymentAfter :: "outcome \<Rightarrow> Deployment" where
  "deploymentAfter res = (case res of Inl (p, d) \<Rightarrow> d | Inr (d, configureAffinity) \<Rightarrow> d)"

text \<open>Field paths of the deployment; a path through a nil pointer reads as \<open>None\<close>.\<close>

definition Spec_Replicas :: "Deployment \<Rightarrow> int32 option" where
  "Spec_Replicas d = DeploymentSpec.Replicas (Deployment.Spec d)"

definition Spec_Strategy :: "Deployment \<Rightarrow> DeploymentStrategy" where
  "Spec_Strategy d = DeploymentSpec.Strategy (Deployment.Spec d)"

definition Spec_Template_Spec_Affinity :: "Deployment \<Rightarrow> Affinity option" where
  "Spec_Template_Spec_Affinity d =
     PodSpec.Affinity (PodTemplateSpec.Spec (DeploymentSpec.Template (Deployment.Spec d)))"

definition Spec_Strategy_MaxUnavailable :: "Deployment \<Rightarrow> IntOrString option" where
  "Spec_Strategy_MaxUnavailable d =
     (case RollingUpdate (Spec_Strategy d) of None \<Rightarrow> None | Some ru \<Rightarrow> MaxUnavailable ru)"

definition Spec_Strategy_MaxSurge :: "Deployment \<Rightarrow> IntOrString option" where
  "Spec_Strategy_MaxSurge d =
     (case RollingUpdate (Spec_Strategy d) of None \<Rightarrow> None | Some ru \<Rightarrow> MaxSurge ru)"

subsection \<open>Concrete inputs\<close>

text \<open>
  One choice of the parameters, for the concrete evaluations below: a default policy
  of 1 replica on single-replica topologies and 2 otherwise, and the name of the ingress
  controller as its deployment label.
\<close>

definition operator_externals :: Externals where
  "operator_externals =
     \<lparr>DetermineReplicas = (\<lambda>ingressConfig infraConfig.
          if singleReplica ingressConfig infraConfig then 1 else 2),
      IngressControllerDeploymentLabel = Name,
      ControllerDeploymentLabel =
        ''ingresscontroller.operator.openshift.io/deployment-ingresscontroller'',
      ControllerDeploymentHashLabel = ''ingresscontroller.operator.openshift.io/hash''\<rparr>"

definition ingresscontroller ::
  "int32 option \<Rightarrow> EndpointPublishingStrategy option \<Rightarrow> IngressController" where
  "ingresscontroller replicas strategy =
     \<lparr>Name = ''default'',
      IngressController.Spec = \<lparr>IngressControllerSpec.Replicas = replicas\<rparr>,
      IngressController.Status = \<lparr>EndpointPublishingStrategy = strategy\<rparr>\<rparr>"

definition ingress_config :: "DefaultPlacement \<Rightarrow> Ingress" where
  "ingress_config placement = \<lparr>Ingress.Status = \<lparr>DefaultPlacement = placement\<rparr>\<rparr>"

definition infra_config :: "TopologyMode \<Rightarrow> TopologyMode \<Rightarrow> Infrastructure" where
  "infra_config controlPlane infrastructure =
     \<lparr>Infrastructure.Status =
        \<lparr>ControlPlaneTopology = controlPlane, InfrastructureTopology = infrastructure\<rparr>\<rparr>"

text \<open>A deployment with Go's zero value in every modelled field.\<close>

definition zero_deployment :: Deployment where
  "zero_deployment =
     \<lparr>Deployment.Spec =
        \<lparr>DeploymentSpec.Replicas = None,
         Strategy = \<lparr>DeploymentStrategy.Type = [], RollingUpdate = None\<rparr>,
         Template = \<lparr>PodTemplateSpec.Spec = \<lparr>Affinity = None\<rparr>\<rparr>\<rparr>\<rparr>"

text \<open>A deployment that already carries an update strategy with a surge and an (empty)
  affinity record.\<close>

definition populated_deployment :: Deployment where
  "populated_deployment =
     \<lparr>Deployment.Spec =
        \<lparr>DeploymentSpec.Replicas = Some 1,
         Strategy =
           \<lparr>DeploymentStrategy.Type = RollingUpdateDeploymentStrategyType,
            RollingUpdate = Some
              \<lparr>MaxUnavailable = Some (FromInt 0), MaxSurge = Some (FromInt 1)\<rparr>\<rparr>,
         Template = \<lparr>PodTemplateSpec.Spec =
           \<lparr>Affinity = Some \<lparr>PodAffinity = None, PodAntiAffinity = None\<rparr>\<rparr>\<rparr>\<rparr>\<rparr>"


definition ha_cluster :: Infrastructure where
  "ha_cluster = infra_config HighlyAvailableTopologyMode HighlyAvailableTopologyMode"

definition single_controlplane_cluster :: Infrastructure where
  "single_controlplane_cluster =
     infra_config SingleReplicaTopologyMode HighlyAvailableTopologyMode"

definition workers_placement :: Ingress where
  "workers_placement = ingress_config DefaultPlacementWorkers"

definition controlplane_placement :: Ingress where
  "controlplane_placement = ingress_config DefaultPlacementControlPlane"

definition ic_with ::
  "int32 option \<Rightarrow> EndpointPublishingStrategyType \<Rightarrow> IngressController" where
  "ic_with replicas t =
     ingresscontroller replicas (Some \<lparr>EndpointPublishingStrategy.Type = t\<rparr>)"

section \<open>Basic facts\<close>

lemmas strategy_type_defs =
  HostNetworkStrategyType_def PrivateStrategyType_def
  LoadBalancerServiceStrategyType_def NodePortServiceStrategyType_def

lemmas path_defs =
  Spec_Replicas_def Spec_Strategy_def Spec_Template_Spec_Affinity_def
  Spec_Strategy_MaxUnavailable_def Spec_Strategy_MaxSurge_def
  set_Spec_Replicas_def set_Spec_Strategy_def set_Spec_Template_Spec_Affinity_def

lemmas input_defs =
  ha_cluster_def workers_placement_def controlplane_placement_def
  single_controlplane_cluster_def ic_with_def ingresscontroller_def ingress_config_def
  infra_config_def operator_externals_def zero_deployment_def populated_deployment_def

lemmas const_defs =
  strategy_type_defs HighlyAvailableTopologyMode_def SingleReplicaTopologyMode_def
  DefaultPlacementWorkers_def DefaultPlacementControlPlane_def

text \<open>Go compares \<^verbatim>\<open>desiredReplicas >= 4\<close> on signed 32-bit integers.\<close>

lemma sle_4: "word_sle (4::int32) r \<longleftrightarrow> 4 \<le> sint r"
  by (simp add: word_sle_eq)


lemma FromString_is_String: "IntOrString.Type (FromString v) = String_Type"
  by (simp add: FromString_def)

lemma FromInt_is_Int: "IntOrString.Type (FromInt n) = Int_Type \<and> IntVal (FromInt n) = n"
  by (simp add: FromInt_def)

text \<open>The first \<^verbatim>\<open>case\<close> of the \<^verbatim>\<open>switch\<close> never hides the second.\<close>

lemma family_not_HostNetwork:
  "t \<in> {PrivateStrategyType, LoadBalancerServiceStrategyType, NodePortServiceStrategyType}
   \<Longrightarrow> t \<noteq> HostNetworkStrategyType"
  by (auto simp: strategy_type_defs)

text \<open>The four ways out of \<^verbatim>\<open>foo\<close> that write no affinity.\<close>

lemma foo_singleReplica:
  "singleReplica ing infra \<Longrightarrow>
   foo ext ci d ing infra =
     Inr (set_Spec_Replicas (Some (determineDeploymentReplicas ext ci ing infra)) d, False)"
  by (simp add: foo_def)

lemma foo_nil:
  "\<not> singleReplica ing infra \<Longrightarrow>
   EndpointPublishingStrategy (IngressController.Status ci) = None \<Longrightarrow>
   foo ext ci d ing infra =
     Inl (NilPointerDereference,
          set_Spec_Replicas (Some (determineDeploymentReplicas ext ci ing infra)) d)"
  by (simp add: foo_def)

lemma foo_other:
  "\<not> singleReplica ing infra \<Longrightarrow>
   EndpointPublishingStrategy (IngressController.Status ci) = Some s \<Longrightarrow>
   EndpointPublishingStrategy.Type s \<notin> {HostNetworkStrategyType, PrivateStrategyType,
      LoadBalancerServiceStrategyType, NodePortServiceStrategyType} \<Longrightarrow>
   foo ext ci d ing infra =
     Inr (set_Spec_Replicas (Some (determineDeploymentReplicas ext ci ing infra)) d, False)"
  by (simp add: foo_def)

lemma foo_HostNetwork:
  "\<not> singleReplica ing infra \<Longrightarrow>
   EndpointPublishingStrategy (IngressController.Status ci) = Some s \<Longrightarrow>
   EndpointPublishingStrategy.Type s = HostNetworkStrategyType \<Longrightarrow>
   foo ext ci d ing infra =
     Inr (set_Spec_Strategy
            \<lparr>DeploymentStrategy.Type = RollingUpdateDeploymentStrategyType,
             RollingUpdate = Some \<lparr>MaxUnavailable = Some (FromString ''25%''),
                                   MaxSurge = Some (FromInt 0)\<rparr>\<rparr>
            (set_Spec_Replicas (Some (determineDeploymentReplicas ext ci ing infra)) d),
          False)"
  by (simp add: foo_def)

text \<open>The flag is only ever true in the second \<^verbatim>\<open>case\<close>.\<close>

lemma foo_True_family:
  assumes "foo ext ci d ing infra = Inr (d', True)"
  shows "\<not> singleReplica ing infra \<and>
         (\<exists>s. EndpointPublishingStrategy (IngressController.Status ci) = Some s
            \<and> EndpointPublishingStrategy.Type s \<in>
                {PrivateStrategyType, LoadBalancerServiceStrategyType,
                 NodePortServiceStrategyType})"
  using assms
  by (auto simp: foo_def Let_def split: if_splits option.splits)

text \<open>The body panics exactly when it reaches the \<^verbatim>\<open>switch\<close> with a nil strategy.\<close>

lemma foo_panics_iff:
  "(\<exists>p. foo ext ci d ing infra = Inl p) \<longleftrightarrow>
   \<not> singleReplica ing infra
   \<and> EndpointPublishingStrategy (IngressController.Status ci) = None"
  by (auto simp: foo_def Let_def split: if_splits option.splits)

text \<open>The concrete inputs.\<close>

lemma not_single_ha [simp]: "\<not> singleReplica workers_placement ha_cluster"
  by (simp add: singleReplica_def input_defs const_defs)

lemma single_controlplane [simp]:
  "singleReplica controlplane_placement single_controlplane_cluster"
  by (simp add: singleReplica_def input_defs const_defs)

lemma not_single_workers [simp]:
  "\<not> singleReplica workers_placement single_controlplane_cluster"
  by (simp add: singleReplica_def input_defs const_defs)

lemma Status_ic_with [simp]:
  "EndpointPublishingStrategy (IngressController.Status (ic_with r t)) =
     Some \<lparr>EndpointPublishingStrategy.Type = t\<rparr>"
  by (simp add: ic_with_def ingresscontroller_def)

lemma Spec_ic_with [simp]:
  "IngressControllerSpec.Replicas (IngressController.Spec (ic_with r t)) = r"
  by (simp add: ic_with_def ingresscontroller_def)

lemma Status_ingresscontroller [simp]:
  "EndpointPublishingStrategy (IngressController.Status (ingresscontroller r e)) = e"
  by (simp add: ingresscontroller_def)

lemma Spec_ingresscontroller [simp]:
  "IngressControllerSpec.Replicas (IngressController.Spec (ingresscontroller r e)) = r"
  by (simp add: ingresscontroller_def)

section \<open>The update strategy and affinity of the service strategies\<close>

text \<open>
  Claim C1. For the strategy types Private, LoadBalancerService and NodePortService on a
  topology that is not single-replica, \<^verbatim>\<open>foo\<close> returns with the update strategy
  \<^verbatim>\<open>RollingUpdate\<close>, \<^verbatim>\<open>MaxSurge\<close> the string \<^verbatim>\<open>25%\<close>, and \<^verbatim>\<open>MaxUnavailable\<close> the
  string \<^verbatim>\<open>50%\<close> when the resolved replica count, read as a signed number, is below 4
  and \<^verbatim>\<open>25%\<close> from 4 on. Both values are built by \<^verbatim>\<open>intstr.FromString\<close>, whose
  result has the type \<^verbatim>\<open>String\<close> (lemma \<open>FromString_is_String\<close>): percentages.
\<close>

theorem service_strategy_rolling_update:
  assumes "\<not> singleReplica ing infra"
    and "EndpointPublishingStrategy (IngressController.Status ci) = Some s"
    and "EndpointPublishingStrategy.Type s \<in>
           {PrivateStrategyType, LoadBalancerServiceStrategyType, NodePortServiceStrategyType}"
  shows "\<exists>d'. foo ext ci d ing infra = Inr (d', True)
           \<and> DeploymentStrategy.Type (Spec_Strategy d') = RollingUpdateDeploymentStrategyType
           \<and> Spec_Strategy_MaxSurge d' = Some (FromString ''25%'')
           \<and> Spec_Strategy_MaxUnavailable d' =
               Some (FromString
                 (if sint (determineDeploymentReplicas ext ci ing infra) < 4
                  then ''50%'' else ''25%''))"
  using assms family_not_HostNetwork[of "EndpointPublishingStrategy.Type s"]
  by (simp add: foo_def Let_def path_defs sle_4 not_less)

text \<open>At 3 replicas and at 4 replicas, the two sides of the threshold.\<close>

theorem service_strategy_rolling_update_witness:
  "\<not> singleReplica workers_placement ha_cluster
   \<and> LoadBalancerServiceStrategyType \<in>
       {PrivateStrategyType, LoadBalancerServiceStrategyType, NodePortServiceStrategyType}
   \<and> (\<exists>d'. foo operator_externals (ic_with (Some 3) LoadBalancerServiceStrategyType)
               zero_deployment workers_placement ha_cluster = Inr (d', True)
          \<and> DeploymentStrategy.Type (Spec_Strategy d') = RollingUpdateDeploymentStrategyType
          \<and> Spec_Strategy_MaxSurge d' = Some (FromString ''25%'')
          \<and> Spec_Strategy_MaxUnavailable d' = Some (FromString ''50%''))
   \<and> (\<exists>d'. foo operator_externals (ic_with (Some 4) LoadBalancerServiceStrategyType)
               zero_deployment workers_placement ha_cluster = Inr (d', True)
          \<and> DeploymentStrategy.Type (Spec_Strategy d') = RollingUpdateDeploymentStrategyType
          \<and> Spec_Strategy_MaxSurge d' = Some (FromString ''25%'')
          \<and> Spec_Strategy_MaxUnavailable d' = Some (FromString ''25%''))"
proof -
  have ns: "\<not> singleReplica workers_placement ha_cluster" by simp
  have fam: "EndpointPublishingStrategy.Type
               \<lparr>EndpointPublishingStrategy.Type = LoadBalancerServiceStrategyType\<rparr> \<in>
       {PrivateStrategyType, LoadBalancerServiceStrategyType, NodePortServiceStrategyType}"
    by simp
  have three: "sint (determineDeploymentReplicas operator_externals
      (ic_with (Some 3) LoadBalancerServiceStrategyType) workers_placement ha_cluster) = 3"
    by (simp add: determineDeploymentReplicas_def)
  have four: "sint (determineDeploymentReplicas operator_externals
      (ic_with (Some 4) LoadBalancerServiceStrategyType) workers_placement ha_cluster) = 4"
    by (simp add: determineDeploymentReplicas_def)
  from service_strategy_rolling_update[OF ns Status_ic_with fam,
      of operator_externals "Some 3" zero_deployment]
    service_strategy_rolling_update[OF ns Status_ic_with fam,
      of operator_externals "Some 4" zero_deployment]
  show ?thesis
    unfolding three four using ns by simp
qed

text \<open>
  Claim C2. In the same cases the affinity written to the deployment has exactly one
  preferred pod-affinity term, of weight 100, with the topology key
  \<^verbatim>\<open>kubernetes.io/hostname\<close> and, as the second of its two match expressions, the
  requirement on the hash label with the operator \<^verbatim>\<open>NotIn\<close>; and exactly one
  required pod-anti-affinity term with the same topology key and the requirement on the
  hash label with the operator \<^verbatim>\<open>In\<close>. The \<^verbatim>\<open>Values\<close> of both hash requirements are
  nil. The pod affinity has no required term and the pod anti-affinity no preferred one.
\<close>

theorem service_strategy_affinity_terms:
  assumes "\<not> singleReplica ing infra"
    and "EndpointPublishingStrategy (IngressController.Status ci) = Some s"
    and "EndpointPublishingStrategy.Type s \<in>
           {PrivateStrategyType, LoadBalancerServiceStrategyType, NodePortServiceStrategyType}"
  shows "\<exists>d' a pa paa wt t sel sel' l r l' r'.
           foo ext ci d ing infra = Inr (d', True)
         \<and> Spec_Template_Spec_Affinity d' = Some a
         \<and> PodAffinity a = Some pa \<and> PodAntiAffinity a = Some paa
         \<and> PodAffinity.PreferredDuringSchedulingIgnoredDuringExecution pa = Some [wt]
         \<and> PodAffinity.RequiredDuringSchedulingIgnoredDuringExecution pa = None
         \<and> Weight wt = 100
         \<and> TopologyKey (PodAffinityTerm wt) = ''kubernetes.io/hostname''
         \<and> LabelSelector (PodAffinityTerm wt) = Some sel
         \<and> MatchExpressions sel = Some [l, r]
         \<and> Key r = ControllerDeploymentHashLabel ext
         \<and> Operator r = LabelSelectorOpNotIn \<and> Values r = None
         \<and> PodAntiAffinity.RequiredDuringSchedulingIgnoredDuringExecution paa = Some [t]
         \<and> PodAntiAffinity.PreferredDuringSchedulingIgnoredDuringExecution paa = None
         \<and> TopologyKey t = ''kubernetes.io/hostname''
         \<and> LabelSelector t = Some sel'
         \<and> MatchExpressions sel' = Some [l', r']
         \<and> Key r' = ControllerDeploymentHashLabel ext
         \<and> Operator r' = LabelSelectorOpIn \<and> Values r' = None"
  using assms family_not_HostNetwork[of "EndpointPublishingStrategy.Type s"]
  by (simp add: foo_def Let_def path_defs)

theorem service_strategy_affinity_terms_witness:
  "\<not> singleReplica workers_placement ha_cluster
   \<and> NodePortServiceStrategyType \<in>
       {PrivateStrategyType, LoadBalancerServiceStrategyType, NodePortServiceStrategyType}
   \<and> (\<exists>d' a pa paa wt t sel sel' l r l' r'.
           foo operator_externals (ic_with None NodePortServiceStrategyType)
             zero_deployment workers_placement ha_cluster = Inr (d', True)
         \<and> Spec_Template_Spec_Affinity d' = Some a
         \<and> PodAffinity a = Some pa \<and> PodAntiAffinity a = Some paa
         \<and> PodAffinity.PreferredDuringSchedulingIgnoredDuringExecution pa = Some [wt]
         \<and> PodAffinity.RequiredDuringSchedulingIgnoredDuringExecution pa = None
         \<and> Weight wt = 100
         \<and> TopologyKey (PodAffinityTerm wt) = ''kubernetes.io/hostname''
         \<and> LabelSelector (PodAffinityTerm wt) = Some sel
         \<and> MatchExpressions sel = Some [l, r]
         \<and> Key r = ''ingresscontroller.operator.openshift.io/hash''
         \<and> Operator r = ''NotIn'' \<and> Values r = None
         \<and> PodAntiAffinity.RequiredDuringSchedulingIgnoredDuringExecution paa = Some [t]
         \<and> PodAntiAffinity.PreferredDuringSchedulingIgnoredDuringExecution paa = None
         \<and> TopologyKey t = ''kubernetes.io/hostname''
         \<and> LabelSelector t = Some sel'
         \<and> MatchExpressions sel' = Some [l', r']
         \<and> Key r' = ''ingresscontroller.operator.openshift.io/hash''
         \<and> Operator r' = ''In'' \<and> Values r' = None)"
proof -
  have ns: "\<not> singleReplica workers_placement ha_cluster" by simp
  have fam: "EndpointPublishingStrategy.Type
               \<lparr>EndpointPublishingStrategy.Type = NodePortServiceStrategyType\<rparr> \<in>
       {PrivateStrategyType, LoadBalancerServiceStrategyType, NodePortServiceStrategyType}"
    by simp
  have hash: "ControllerDeploymentHashLabel operator_externals =
                ''ingresscontroller.operator.openshift.io/hash''"
    by (simp add: operator_externals_def)
  from service_strategy_affinity_terms[OF ns Status_ic_with fam,
      of operator_externals None zero_deployment]
  show ?thesis
    unfolding hash LabelSelectorOpIn_def LabelSelectorOpNotIn_def using ns by simp
qed

text \<open>
  Claim C10. Whenever \<^verbatim>\<open>foo\<close> returns true, the preferred pod-affinity term and the
  required pod-anti-affinity term of the deployment both have, as the first of their two
  match expressions, the requirement with the key \<^verbatim>\<open>ControllerDeploymentLabel\<close>, the
  operator \<^verbatim>\<open>In\<close> and the one value \<^verbatim>\<open>IngressControllerDeploymentLabel(ci)\<close>, the
  label of the ingress controller the call was made for.
\<close>

theorem affinity_terms_select_own_deployment:
  assumes "foo ext ci d ing infra = Inr (d', True)"
  shows "\<exists>a pa paa wt t sel sel' l r l' r'.
           Spec_Template_Spec_Affinity d' = Some a
         \<and> PodAffinity a = Some pa \<and> PodAntiAffinity a = Some paa
         \<and> PodAffinity.PreferredDuringSchedulingIgnoredDuringExecution pa = Some [wt]
         \<and> LabelSelector (PodAffinityTerm wt) = Some sel
         \<and> MatchExpressions sel = Some [l, r]
         \<and> Key l = ControllerDeploymentLabel ext
         \<and> Operator l = LabelSelectorOpIn
         \<and> Values l = Some [IngressControllerDeploymentLabel ext ci]
         \<and> PodAntiAffinity.RequiredDuringSchedulingIgnoredDuringExecution paa = Some [t]
         \<and> LabelSelector t = Some sel'
         \<and> MatchExpressions sel' = Some [l', r']
         \<and> Key l' = ControllerDeploymentLabel ext
         \<and> Operator l' = LabelSelectorOpIn
         \<and> Values l' = Some [IngressControllerDeploymentLabel ext ci]"
proof -
  from foo_True_family[OF assms] obtain s where
    ns: "\<not> singleReplica ing infra"
    and eps: "EndpointPublishingStrategy (IngressController.Status ci) = Some s"
    and fam: "EndpointPublishingStrategy.Type s \<in>
           {PrivateStrategyType, LoadBalancerServiceStrategyType, NodePortServiceStrategyType}"
    by blast
  from assms ns eps fam family_not_HostNetwork[OF fam] show ?thesis
    by (auto simp: foo_def Let_def path_defs)
qed

theorem affinity_terms_select_own_deployment_witness:
  "foo operator_externals (ic_with None PrivateStrategyType)
       populated_deployment workers_placement ha_cluster =
     Inr (deploymentAfter (foo operator_externals (ic_with None PrivateStrategyType)
            populated_deployment workers_placement ha_cluster), True)
   \<and> (\<exists>a pa paa wt t sel sel' l r l' r'.
           Spec_Template_Spec_Affinity
             (deploymentAfter (foo operator_externals (ic_with None PrivateStrategyType)
                populated_deployment workers_placement ha_cluster)) = Some a
         \<and> PodAffinity a = Some pa \<and> PodAntiAffinity a = Some paa
         \<and> PodAffinity.PreferredDuringSchedulingIgnoredDuringExecution pa = Some [wt]
         \<and> LabelSelector (PodAffinityTerm wt) = Some sel
         \<and> MatchExpressions sel = Some [l, r]
         \<and> Key l = ''ingresscontroller.operator.openshift.io/deployment-ingresscontroller''
         \<and> Operator l = ''In''
         \<and> Values l = Some [''default'']
         \<and> PodAntiAffinity.RequiredDuringSchedulingIgnoredDuringExecution paa = Some [t]
         \<and> LabelSelector t = Some sel'
         \<and> MatchExpressions sel' = Some [l', r']
         \<and> Key l' = ''ingresscontroller.operator.openshift.io/deployment-ingresscontroller''
         \<and> Operator l' = ''In''
         \<and> Values l' = Some [''default''])"
proof -
  have ret: "foo operator_externals (ic_with None PrivateStrategyType)
       populated_deployment workers_placement ha_cluster =
     Inr (deploymentAfter (foo operator_externals (ic_with None PrivateStrategyType)
            populated_deployment workers_placement ha_cluster), True)"
    by (simp add: foo_def Let_def deploymentAfter_def strategy_type_defs)
  have label: "ControllerDeploymentLabel operator_externals =
        ''ingresscontroller.operator.openshift.io/deployment-ingresscontroller''"
    "IngressControllerDeploymentLabel operator_externals
        (ic_with None PrivateStrategyType) = ''default''"
    by (simp_all add: operator_externals_def ic_with_def ingresscontroller_def)
  from affinity_terms_select_own_deployment[OF ret] ret show ?thesis
    unfolding label LabelSelectorOpIn_def by blast
qed

section \<open>The single-replica short circuit and the other strategies\<close>

text \<open>
  Claim C4. \<^verbatim>\<open>singleReplica\<close> reads the control-plane topology when the default
  placement is \<^verbatim>\<open>ControlPlane\<close> and the infrastructure topology otherwise, and is true
  exactly when that field equals \<^verbatim>\<open>SingleReplica\<close>, so that any other value, declared
  or not, counts as not single-replica. When it is true, \<^verbatim>\<open>foo\<close> returns false
  whatever the ingress controller holds (its strategy may even be nil) and overrides
  nothing: the update strategy and the affinity of the deployment are the ones the
  caller supplied, so a deployment built without an update strategy keeps none and gets
  the platform's default.
\<close>

theorem singleReplica_no_override:
  "(singleReplica ing infra \<longleftrightarrow>
      (if DefaultPlacement (Ingress.Status ing) = DefaultPlacementControlPlane
       then ControlPlaneTopology (Infrastructure.Status infra)
       else InfrastructureTopology (Infrastructure.Status infra)) = SingleReplicaTopologyMode)
   \<and> (singleReplica ing infra \<longrightarrow>
        (\<exists>d'. foo ext ci d ing infra = Inr (d', False)
           \<and> Spec_Strategy d' = Spec_Strategy d
           \<and> Spec_Template_Spec_Affinity d' = Spec_Template_Spec_Affinity d))"
  by (simp add: foo_singleReplica path_defs) (simp add: singleReplica_def)

text \<open>
  A single-replica control plane with control-plane placement, for a LoadBalancerService
  controller and for one without a strategy, on a deployment with and without an update
  strategy; the same cluster with placement on the workers is not single-replica, nor
  is a cluster whose topology is the value \<^verbatim>\<open>External\<close>.
\<close>

theorem singleReplica_no_override_witness:
  "singleReplica controlplane_placement single_controlplane_cluster
   \<and> (\<exists>d'. foo operator_externals (ic_with None LoadBalancerServiceStrategyType)
             populated_deployment controlplane_placement single_controlplane_cluster =
               Inr (d', False)
          \<and> Spec_Strategy d' = Spec_Strategy populated_deployment
          \<and> Spec_Template_Spec_Affinity d' = Spec_Template_Spec_Affinity populated_deployment)
   \<and> (\<exists>d'. foo operator_externals (ingresscontroller None None)
             zero_deployment controlplane_placement single_controlplane_cluster =
               Inr (d', False)
          \<and> Spec_Strategy d' =
               \<lparr>DeploymentStrategy.Type = [], RollingUpdate = None\<rparr>
          \<and> Spec_Template_Spec_Affinity d' = None)
   \<and> \<not> singleReplica workers_placement single_controlplane_cluster
   \<and> \<not> singleReplica workers_placement (infra_config ''External'' ''External'')"
proof -
  have sr: "singleReplica controlplane_placement single_controlplane_cluster" by simp
  have zero: "Spec_Strategy zero_deployment =
                \<lparr>DeploymentStrategy.Type = [], RollingUpdate = None\<rparr>"
    "Spec_Template_Spec_Affinity zero_deployment = None"
    by (simp_all add: zero_deployment_def path_defs)
  have ext: "InfrastructureTopology (Infrastructure.Status (infra_config ''External'' ''External''))
               \<noteq> SingleReplicaTopologyMode"
    "DefaultPlacement (Ingress.Status workers_placement) \<noteq> DefaultPlacementControlPlane"
    by (simp_all add: input_defs const_defs)
  from singleReplica_no_override[of controlplane_placement single_controlplane_cluster
        operator_externals "ic_with None LoadBalancerServiceStrategyType" populated_deployment]
    singleReplica_no_override[of controlplane_placement single_controlplane_cluster
        operator_externals "ingresscontroller None None" zero_deployment]
    singleReplica_no_override[of workers_placement "infra_config ''External'' ''External''"
        operator_externals "ingresscontroller None None" zero_deployment]
  show ?thesis
    using sr ext by (simp add: zero)
qed

text \<open>
  Claim C5. For HostNetwork on a topology that is not single-replica, \<^verbatim>\<open>foo\<close>
  returns false with the update strategy \<^verbatim>\<open>RollingUpdate\<close>, \<^verbatim>\<open>MaxUnavailable\<close> the
  string \<^verbatim>\<open>25%\<close> and \<^verbatim>\<open>MaxSurge\<close> the integer 0 (\<^verbatim>\<open>intstr.FromInt(0)\<close>, of type
  \<^verbatim>\<open>Int\<close> by lemma \<open>FromInt_is_Int\<close>), whatever the replica count and the placement;
  it attaches no affinity: the affinity field is the one the caller supplied.
\<close>

theorem HostNetwork_rolling_update:
  assumes "\<not> singleReplica ing infra"
    and "EndpointPublishingStrategy (IngressController.Status ci) = Some s"
    and "EndpointPublishingStrategy.Type s = HostNetworkStrategyType"
  shows "\<exists>d'. foo ext ci d ing infra = Inr (d', False)
           \<and> DeploymentStrategy.Type (Spec_Strategy d') = RollingUpdateDeploymentStrategyType
           \<and> Spec_Strategy_MaxUnavailable d' = Some (FromString ''25%'')
           \<and> Spec_Strategy_MaxSurge d' = Some (FromInt 0)
           \<and> Spec_Template_Spec_Affinity d' = Spec_Template_Spec_Affinity d"
  using foo_HostNetwork[OF assms] by (simp add: path_defs)

theorem HostNetwork_rolling_update_witness:
  "\<not> singleReplica workers_placement ha_cluster
   \<and> (\<exists>d'. foo operator_externals (ic_with (Some 9) HostNetworkStrategyType)
             zero_deployment workers_placement ha_cluster = Inr (d', False)
          \<and> DeploymentStrategy.Type (Spec_Strategy d') = RollingUpdateDeploymentStrategyType
          \<and> Spec_Strategy_MaxUnavailable d' = Some (FromString ''25%'')
          \<and> Spec_Strategy_MaxSurge d' = Some (FromInt 0)
          \<and> Spec_Template_Spec_Affinity d' = None)"
proof -
  have ns: "\<not> singleReplica workers_placement ha_cluster" by simp
  have host: "EndpointPublishingStrategy.Type
               \<lparr>EndpointPublishingStrategy.Type = HostNetworkStrategyType\<rparr> =
             HostNetworkStrategyType"
    by simp
  have zero: "Spec_Template_Spec_Affinity zero_deployment = None"
    by (simp add: zero_deployment_def path_defs)
  from HostNetwork_rolling_update[OF ns Status_ic_with host,
      of operator_externals "Some 9" zero_deployment]
  show ?thesis
    using ns by (simp add: zero)
qed

text \<open>
  Claim C8. For a strategy type other than HostNetwork, Private, LoadBalancerService and
  NodePortService, on a topology that is not single-replica, \<^verbatim>\<open>foo\<close> returns false and
  the update strategy and the affinity of the deployment are the ones the caller
  supplied.
\<close>

theorem unrecognized_strategy_no_override:
  assumes "\<not> singleReplica ing infra"
    and "EndpointPublishingStrategy (IngressController.Status ci) = Some s"
    and "EndpointPublishingStrategy.Type s \<notin>
           {HostNetworkStrategyType, PrivateStrategyType, LoadBalancerServiceStrategyType,
            NodePortServiceStrategyType}"
  shows "\<exists>d'. foo ext ci d ing infra = Inr (d', False)
           \<and> Spec_Strategy d' = Spec_Strategy d
           \<and> Spec_Template_Spec_Affinity d' = Spec_Template_Spec_Affinity d"
  using foo_other[OF assms] by (simp add: path_defs)

theorem unrecognized_strategy_no_override_witness:
  "\<not> singleReplica workers_placement ha_cluster
   \<and> ''Gateway'' \<notin>
           {HostNetworkStrategyType, PrivateStrategyType, LoadBalancerServiceStrategyType,
            NodePortServiceStrategyType}
   \<and> (\<exists>d'. foo operator_externals (ic_with None ''Gateway'')
             populated_deployment workers_placement ha_cluster = Inr (d', False)
          \<and> Spec_Strategy d' = Spec_Strategy populated_deployment
          \<and> Spec_Template_Spec_Affinity d' = Spec_Template_Spec_Affinity populated_deployment)"
proof -
  have ns: "\<not> singleReplica workers_placement ha_cluster" by simp
  have other: "EndpointPublishingStrategy.Type
               \<lparr>EndpointPublishingStrategy.Type = ''Gateway''\<rparr> \<notin>
           {HostNetworkStrategyType, PrivateStrategyType, LoadBalancerServiceStrategyType,
            NodePortServiceStrategyType}"
    by (simp add: strategy_type_defs)
  from unrecognized_strategy_no_override[OF ns Status_ic_with other,
      of operator_externals None populated_deployment]
  show ?thesis
    using ns other by simp
qed

section \<open>The replica count\<close>

text \<open>
  Claim C6. Whatever the input, the deployment that \<^verbatim>\<open>foo\<close> leaves holds the resolved
  replica count in \<^verbatim>\<open>Spec.Replicas\<close>: on the single-replica return, on each
  \<^verbatim>\<open>case\<close> of the \<^verbatim>\<open>switch\<close>, on the return past the \<^verbatim>\<open>switch\<close> and, the write
  coming first, also when the \<^verbatim>\<open>switch\<close> panics.
\<close>

theorem replicas_always_written:
  "Spec_Replicas (deploymentAfter (foo ext ci d ing infra)) =
     Some (determineDeploymentReplicas ext ci ing infra)"
  by (simp add: foo_def Let_def deploymentAfter_def path_defs split: option.splits)

text \<open>On the single-replica return, on the return past the \<^verbatim>\<open>switch\<close> and on the panic.\<close>

theorem replicas_always_written_witness:
  "Spec_Replicas (deploymentAfter (foo operator_externals
       (ic_with None LoadBalancerServiceStrategyType)
       populated_deployment controlplane_placement single_controlplane_cluster)) = Some 1
   \<and> Spec_Replicas (deploymentAfter (foo operator_externals (ic_with (Some 5) ''Gateway'')
       populated_deployment workers_placement ha_cluster)) = Some 5
   \<and> foo operator_externals (ingresscontroller None None)
       zero_deployment workers_placement ha_cluster =
         Inl (NilPointerDereference, set_Spec_Replicas (Some 2) zero_deployment)
   \<and> Spec_Replicas (deploymentAfter (foo operator_externals (ingresscontroller None None)
       zero_deployment workers_placement ha_cluster)) = Some 2"
proof -
  have panics: "foo operator_externals (ingresscontroller None None)
       zero_deployment workers_placement ha_cluster =
         Inl (NilPointerDereference, set_Spec_Replicas (Some 2) zero_deployment)"
    by (simp add: foo_nil determineDeploymentReplicas_def operator_externals_def)
  from replicas_always_written[of operator_externals
        "ic_with None LoadBalancerServiceStrategyType" populated_deployment
        controlplane_placement single_controlplane_cluster]
    replicas_always_written[of operator_externals "ic_with (Some 5) ''Gateway''"
        populated_deployment workers_placement ha_cluster]
    replicas_always_written[of operator_externals "ingresscontroller None None"
        zero_deployment workers_placement ha_cluster]
  show ?thesis
    unfolding panics
    by (simp add: determineDeploymentReplicas_def operator_externals_def)
qed

text \<open>
  Claim C7. When the ingress controller declares a replica count,
  \<^verbatim>\<open>determineDeploymentReplicas\<close> returns it unchanged, whatever the strategy and the
  topology; the result is the same for every default policy, which is how a pure
  function shows that the policy is not consulted; and it is the count \<^verbatim>\<open>foo\<close>
  writes. When no count is declared the result is that of \<^verbatim>\<open>DetermineReplicas\<close> on
  the same two configuration objects.
\<close>

theorem explicit_replicas_win:
  "(IngressControllerSpec.Replicas (IngressController.Spec ic) = Some r \<longrightarrow>
      determineDeploymentReplicas ext ic ing infra = r
    \<and> (\<forall>ext'. determineDeploymentReplicas ext' ic ing infra = r)
    \<and> Spec_Replicas (deploymentAfter (foo ext ic d ing infra)) = Some r)
   \<and> (IngressControllerSpec.Replicas (IngressController.Spec ic) = None \<longrightarrow>
      determineDeploymentReplicas ext ic ing infra = DetermineReplicas ext ing infra)"
  by (simp add: foo_def Let_def deploymentAfter_def path_defs determineDeploymentReplicas_def
        split: option.splits)

text \<open>Seven declared replicas on a single-replica cluster, where the default policy
  of the example says 1; and no declared count on a highly available one.\<close>

theorem explicit_replicas_win_witness:
  "IngressControllerSpec.Replicas
     (IngressController.Spec (ic_with (Some 7) HostNetworkStrategyType)) = Some 7
   \<and> DetermineReplicas operator_externals controlplane_placement single_controlplane_cluster = 1
   \<and> determineDeploymentReplicas operator_externals (ic_with (Some 7) HostNetworkStrategyType)
       controlplane_placement single_controlplane_cluster = 7
   \<and> Spec_Replicas (deploymentAfter (foo operator_externals
       (ic_with (Some 7) HostNetworkStrategyType) zero_deployment
       controlplane_placement single_controlplane_cluster)) = Some 7
   \<and> IngressControllerSpec.Replicas
     (IngressController.Spec (ic_with None HostNetworkStrategyType)) = None
   \<and> determineDeploymentReplicas operator_externals (ic_with None HostNetworkStrategyType)
       workers_placement ha_cluster = 2"
proof -
  have policy:
    "DetermineReplicas operator_externals controlplane_placement single_controlplane_cluster = 1"
    "DetermineReplicas operator_externals workers_placement ha_cluster = 2"
    by (simp_all add: operator_externals_def)
  from explicit_replicas_win[of "ic_with (Some 7) HostNetworkStrategyType" 7
        operator_externals controlplane_placement single_controlplane_cluster zero_deployment]
    explicit_replicas_win[of "ic_with None HostNetworkStrategyType" 0
        operator_externals workers_placement ha_cluster zero_deployment]
  show ?thesis
    by (simp add: policy)
qed

section \<open>Totality\<close>

text \<open>
  Claim C9. On every input whose endpoint publishing strategy is present whenever the
  topology is not single-replica, \<^verbatim>\<open>foo\<close> returns: it ends in a deployment and a
  flag, not in a panic. (Lemma \<open>foo_panics_iff\<close> shows the condition cannot be dropped.)
\<close>

theorem foo_returns:
  assumes "\<not> singleReplica ing infra \<longrightarrow>
             EndpointPublishingStrategy (IngressController.Status ci) \<noteq> None"
  shows "\<exists>d' configureAffinity. foo ext ci d ing infra = Inr (d', configureAffinity)"
  using assms
  by (auto simp: foo_def Let_def split: option.splits)

theorem foo_returns_witness:
  "EndpointPublishingStrategy (IngressController.Status (ic_with None ''Gateway'')) \<noteq> None
   \<and> (\<exists>d' configureAffinity.
        foo operator_externals (ic_with None ''Gateway'') zero_deployment
          workers_placement ha_cluster = Inr (d', configureAffinity))
   \<and> singleReplica controlplane_placement single_controlplane_cluster
   \<and> (\<exists>d' configureAffinity.
        foo operator_externals (ingresscontroller None None) zero_deployment
          controlplane_placement single_controlplane_cluster = Inr (d', configureAffinity))"
proof -
  have present:
    "EndpointPublishingStrategy (IngressController.Status (ic_with None ''Gateway'')) \<noteq> None"
    by simp
  have sr: "singleReplica controlplane_placement single_controlplane_cluster" by simp
  from foo_returns[of workers_placement ha_cluster "ic_with None ''Gateway''"
        operator_externals zero_deployment]
    foo_returns[of controlplane_placement single_controlplane_cluster
        "ingresscontroller None None" operator_externals zero_deployment]
  show ?thesis
    using present sr by simp
qed

section \<open>When the affinity is present\<close>




end
